theory Spec2Isabelle
  imports Complex_Main "HOL-Library.Sublist"
begin

section \<open>Coord.py: a two dimensional coordinate system with units\<close>

text \<open>
  The module \<^verbatim>\<open>src/logio/util/plot/Coord.py\<close> is embedded function by function.
  A unit identifier is a Python string or \<^verbatim>\<open>None\<close>, so it is a \<open>string option\<close>.
  Python numbers are modelled by the reals: the arithmetic of the model is exact, and
  rounding of binary floating point is not part of it.  Where a statement has to hold
  whatever the arithmetic does, the multiplication and the division are parameters
  (\<open>convert_with\<close>).  An exception is a value of \<open>py_error\<close>, returned on the left of
  a sum.
\<close>

subsection \<open>Exceptions\<close>

type_synonym unit_id = "string option"

datatype py_error =
    ExceptionCoordUnitConvert string
  | KeyError unit_id
  | ZeroDivisionError

definition bind_res :: "py_error + 'a \<Rightarrow> ('a \<Rightarrow> py_error + 'b) \<Rightarrow> py_error + 'b" where
  "bind_res r f = (case r of Inl e \<Rightarrow> Inl e | Inr v \<Rightarrow> f v)"

text \<open>\<^verbatim>\<open>'%s' % u\<close> for a unit identifier: a string is printed as it is, \<^verbatim>\<open>None\<close> as its name.\<close>

fun str_unit :: "unit_id \<Rightarrow> string" where
  "str_unit None = ''None''"
| "str_unit (Some s) = s"

text \<open>
  The operator \<^verbatim>\<open>/\<close> on Python numbers (\<^verbatim>\<open>int\<close>, \<^verbatim>\<open>float\<close>) is true division, and it
  raises \<^verbatim>\<open>ZeroDivisionError\<close> on a zero divisor; it returns no infinity and no NaN there.
\<close>

definition py_truediv :: "real \<Rightarrow> real \<Rightarrow> py_error + real" where
  "py_truediv a b = (if b = 0 then Inl ZeroDivisionError else Inr (a / b))"

subsection \<open>The unit table\<close>

definition BASE_UNITS :: unit_id where
  "BASE_UNITS = Some ''px''"

definition UNIT_MAP_items :: "(unit_id \<times> real) list" where
  "UNIT_MAP_items =
     [ (None, 1.0),
       (Some ''px'', 1.0),
       (Some ''pt'', 1.0),
       (Some ''pc'', 12.0),
       (Some ''in'', 72.0),
       (Some ''cm'', 72.0 / 2.54),
       (Some ''mm'', 72.0 / 25.4) ]"

definition UNIT_MAP :: "unit_id \<rightharpoonup> real" where
  "UNIT_MAP = map_of UNIT_MAP_items"

text \<open>\<^verbatim>\<open>units()\<close>: the keys of the table.\<close>

definition units_keys :: "unit_id list" where
  "units_keys = map fst UNIT_MAP_items"

text \<open>\<^verbatim>\<open>UNIT_MAP[u]\<close>: a subscript on a dictionary raises \<^verbatim>\<open>KeyError\<close> on a missing key.\<close>

definition UNIT_MAP_getitem :: "unit_id \<Rightarrow> py_error + real" where
  "UNIT_MAP_getitem u = (case UNIT_MAP u of None \<Rightarrow> Inl (KeyError u) | Some s \<Rightarrow> Inr s)"

subsection \<open>convert\<close>

text \<open>
  \<^verbatim>\<open>
  def convert(val, unitFrom, unitTo):
      if unitFrom == unitTo:
          return val
      try:
          return val * UNIT_MAP[unitFrom] / UNIT_MAP[unitTo]
      except KeyError:
          if unitFrom not in UNIT_MAP:
              raise ExceptionCoordUnitConvert('Unsupported units %s' % unitTo)
          raise ExceptionCoordUnitConvert('Unsupported units %s' % unitFrom)
  \<close>
  The body of the \<^verbatim>\<open>try\<close> evaluates left to right: the lookup of \<^verbatim>\<open>unitFrom\<close>, the
  product, the lookup of \<^verbatim>\<open>unitTo\<close>, the quotient.  The handler catches \<^verbatim>\<open>KeyError\<close>
  only; any other exception leaves the function as it is.
\<close>

definition convert_try ::
  "(real \<Rightarrow> real \<Rightarrow> real) \<Rightarrow> (real \<Rightarrow> real \<Rightarrow> py_error + real) \<Rightarrow>
   real \<Rightarrow> unit_id \<Rightarrow> unit_id \<Rightarrow> py_error + real" where
  "convert_try mul dv val unitFrom unitTo =
     bind_res (UNIT_MAP_getitem unitFrom) (\<lambda>sf.
     bind_res (Inr (mul val sf)) (\<lambda>prod.
     bind_res (UNIT_MAP_getitem unitTo) (\<lambda>st.
     dv prod st)))"

definition convert_with ::
  "(real \<Rightarrow> real \<Rightarrow> real) \<Rightarrow> (real \<Rightarrow> real \<Rightarrow> py_error + real) \<Rightarrow>
   real \<Rightarrow> unit_id \<Rightarrow> unit_id \<Rightarrow> py_error + real" where
  "convert_with mul dv val unitFrom unitTo =
     (if unitFrom = unitTo then Inr val
      else case convert_try mul dv val unitFrom unitTo of
        Inl (KeyError k) \<Rightarrow>
          (if UNIT_MAP unitFrom = None
           then Inl (ExceptionCoordUnitConvert (''Unsupported units '' @ str_unit unitTo))
           else Inl (ExceptionCoordUnitConvert (''Unsupported units '' @ str_unit unitFrom)))
      | r \<Rightarrow> r)"

definition convert :: "real \<Rightarrow> unit_id \<Rightarrow> unit_id \<Rightarrow> py_error + real" where
  "convert = convert_with (*) py_truediv"

subsection \<open>Dim\<close>

record Dim =
  "value" :: real
  units :: unit_id

definition Dim_scale :: "Dim \<Rightarrow> real \<Rightarrow> Dim" where
  "Dim_scale self factor = self\<lparr>value := value self * factor\<rparr>"

definition Dim_divide :: "Dim \<Rightarrow> real \<Rightarrow> py_error + Dim" where
  "Dim_divide self factor =
     bind_res (py_truediv (value self) factor) (\<lambda>q. Inr (self\<lparr>value := q\<rparr>))"

definition Dim_convert :: "Dim \<Rightarrow> unit_id \<Rightarrow> py_error + Dim" where
  "Dim_convert self u =
     bind_res (convert (value self) (units self) u) (\<lambda>c. Inr (self\<lparr>value := c, units := u\<rparr>))"

text \<open>
  \<^verbatim>\<open>
  def __add__(self, other):
      if self.units is None and other.units is not None:
          myVal = other.value + convert(self.value, self.units, other.units)
          return Dim(myVal, other.units)
      else:
          myVal = self.value + convert(other.value, other.units, self.units)
          return Dim(myVal, self.units)
  \<close>
  and \<^verbatim>\<open>__sub__\<close> alike, with \<^verbatim>\<open>convert(self.value, ...) - other.value\<close> in the first
  branch and \<^verbatim>\<open>self.value - convert(other.value, ...)\<close> in the second.
\<close>

definition Dim_add :: "Dim \<Rightarrow> Dim \<Rightarrow> py_error + Dim" where
  "Dim_add self other =
     (if units self = None \<and> units other \<noteq> None
      then bind_res (convert (value self) (units self) (units other)) (\<lambda>c.
             Inr \<lparr>value = value other + c, units = units other\<rparr>)
      else bind_res (convert (value other) (units other) (units self)) (\<lambda>c.
             Inr \<lparr>value = value self + c, units = units self\<rparr>))"

definition Dim_sub :: "Dim \<Rightarrow> Dim \<Rightarrow> py_error + Dim" where
  "Dim_sub self other =
     (if units self = None \<and> units other \<noteq> None
      then bind_res (convert (value self) (units self) (units other)) (\<lambda>c.
             Inr \<lparr>value = c - value other, units = units other\<rparr>)
      else bind_res (convert (value other) (units other) (units self)) (\<lambda>c.
             Inr \<lparr>value = value self - c, units = units self\<rparr>))"

text \<open>\<^verbatim>\<open>__iadd__\<close> and \<^verbatim>\<open>__isub__\<close> rebind \<^verbatim>\<open>self\<close> to \<^verbatim>\<open>self + other\<close>, \<^verbatim>\<open>self - other\<close>.\<close>

definition Dim_iadd :: "Dim \<Rightarrow> Dim \<Rightarrow> py_error + Dim" where
  "Dim_iadd self other = Dim_add self other"

definition Dim_isub :: "Dim \<Rightarrow> Dim \<Rightarrow> py_error + Dim" where
  "Dim_isub self other = Dim_sub self other"

text \<open>
  The six comparisons, each \<^verbatim>\<open>self.value OP convert(other.value, other.units, self.units)\<close>.
\<close>

definition Dim_lt :: "Dim \<Rightarrow> Dim \<Rightarrow> py_error + bool" where
  "Dim_lt self other =
     bind_res (convert (value other) (units other) (units self)) (\<lambda>c. Inr (value self < c))"

definition Dim_le :: "Dim \<Rightarrow> Dim \<Rightarrow> py_error + bool" where
  "Dim_le self other =
     bind_res (convert (value other) (units other) (units self)) (\<lambda>c. Inr (value self \<le> c))"

definition Dim_eq :: "Dim \<Rightarrow> Dim \<Rightarrow> py_error + bool" where
  "Dim_eq self other =
     bind_res (convert (value other) (units other) (units self)) (\<lambda>c. Inr (value self = c))"

definition Dim_ne :: "Dim \<Rightarrow> Dim \<Rightarrow> py_error + bool" where
  "Dim_ne self other =
     bind_res (convert (value other) (units other) (units self)) (\<lambda>c. Inr (value self \<noteq> c))"

definition Dim_gt :: "Dim \<Rightarrow> Dim \<Rightarrow> py_error + bool" where
  "Dim_gt self other =
     bind_res (convert (value other) (units other) (units self)) (\<lambda>c. Inr (value self > c))"

definition Dim_ge :: "Dim \<Rightarrow> Dim \<Rightarrow> py_error + bool" where
  "Dim_ge self other =
     bind_res (convert (value other) (units other) (units self)) (\<lambda>c. Inr (value self \<ge> c))"

definition dimIn :: "real \<Rightarrow> Dim" where
  "dimIn v = \<lparr>value = v, units = Some ''in''\<rparr>"

subsection \<open>Pt\<close>

record Pt =
  x :: Dim
  y :: Dim

text \<open>\<^verbatim>\<open>self.x == other.x and self.y == other.y\<close>: the second comparison runs only when the
  first one is true.\<close>

definition Pt_eq :: "Pt \<Rightarrow> Pt \<Rightarrow> py_error + bool" where
  "Pt_eq self other =
     bind_res (Dim_eq (x self) (x other)) (\<lambda>ex.
       if ex then Dim_eq (y self) (y other) else Inr False)"

text \<open>
  \<^verbatim>\<open>
  def convert(self, u):
      return self._replace(x=self.x.convert(u), y=self.y.convert(u))
  \<close>
  The keyword arguments are evaluated in the order written, \<^verbatim>\<open>x\<close> first.
\<close>

definition Pt_convert :: "Pt \<Rightarrow> unit_id \<Rightarrow> py_error + Pt" where
  "Pt_convert self u =
     bind_res (Dim_convert (x self) u) (\<lambda>nx.
     bind_res (Dim_convert (y self) u) (\<lambda>ny.
     Inr (self\<lparr>x := nx, y := ny\<rparr>)))"

definition Pt_scale :: "Pt \<Rightarrow> real \<Rightarrow> Pt" where
  "Pt_scale self factor =
     self\<lparr>x := Dim_scale (x self) factor, y := Dim_scale (y self) factor\<rparr>"

subsection \<open>Helper functions for object creation\<close>

definition baseUnitsDim :: "real \<Rightarrow> Dim" where
  "baseUnitsDim theLen = \<lparr>value = theLen, units = BASE_UNITS\<rparr>"

definition zeroBaseUnitsDim :: Dim where
  "zeroBaseUnitsDim = baseUnitsDim 0.0"

definition zeroBaseUnitsPt :: Pt where
  "zeroBaseUnitsPt = \<lparr>x = zeroBaseUnitsDim, y = zeroBaseUnitsDim\<rparr>"

text \<open>
  \<^verbatim>\<open>
  def newPt(theP, incX=None, incY=None):
      newX = theP.x
      if incX is not None:
          newX += incX
      newY = theP.y
      if incY is not None:
          newY += incY
      return Pt(x=newX, y=newY)
  \<close>
\<close>

definition newPt :: "Pt \<Rightarrow> Dim option \<Rightarrow> Dim option \<Rightarrow> py_error + Pt" where
  "newPt theP incX incY =
     bind_res (case incX of None \<Rightarrow> Inr (x theP) | Some d \<Rightarrow> Dim_iadd (x theP) d) (\<lambda>newX.
     bind_res (case incY of None \<Rightarrow> Inr (y theP) | Some d \<Rightarrow> Dim_iadd (y theP) d) (\<lambda>newY.
     Inr \<lparr>x = newX, y = newY\<rparr>))"

text \<open>
  \<^verbatim>\<open>
  def convertPt(theP, theUnits):
      return Pt(
          x=Dim(convert(theP.x.value, theP.x.units, theUnits), theUnits),
          y=Dim(convert(theP.y.value, theP.y.units, theUnits), theUnits),
          )
  \<close>
\<close>

definition convertPt :: "Pt \<Rightarrow> unit_id \<Rightarrow> py_error + Pt" where
  "convertPt theP theUnits =
     bind_res (convert (value (x theP)) (units (x theP)) theUnits) (\<lambda>cx.
     bind_res (convert (value (y theP)) (units (y theP)) theUnits) (\<lambda>cy.
     Inr \<lparr>x = \<lparr>value = cx, units = theUnits\<rparr>, y = \<lparr>value = cy, units = theUnits\<rparr>\<rparr>))"

section \<open>Properties\<close>

subsection \<open>The table and the shape of convert\<close>

lemma UNIT_MAP_lookup:
  "UNIT_MAP None = Some 1"
  "UNIT_MAP (Some ''px'') = Some 1"
  "UNIT_MAP (Some ''pt'') = Some 1"
  "UNIT_MAP (Some ''pc'') = Some 12"
  "UNIT_MAP (Some ''in'') = Some 72"
  "UNIT_MAP (Some ''cm'') = Some (72 / 2.54)"
  "UNIT_MAP (Some ''mm'') = Some (72 / 25.4)"
  by (simp_all add: UNIT_MAP_def UNIT_MAP_items_def)

lemma UNIT_MAP_dom:
  "dom UNIT_MAP
     = {None, Some ''px'', Some ''pt'', Some ''pc'', Some ''in'', Some ''cm'', Some ''mm''}"
  unfolding UNIT_MAP_def UNIT_MAP_items_def by (simp add: dom_map_of_conv_image_fst)

lemma UNIT_MAP_pos: "UNIT_MAP u = Some s \<Longrightarrow> 0 < s"
  by (auto simp: UNIT_MAP_def UNIT_MAP_items_def split: if_splits)

lemma UNIT_MAP_bogus: "UNIT_MAP (Some ''bogus'') = None"
  by (simp add: UNIT_MAP_def UNIT_MAP_items_def)

lemma convert_with_same: "convert_with mul dv v u u = Inr v"
  by (simp add: convert_with_def)

text \<open>
  With exact arithmetic the quotient never raises, since no scale of the table is zero;
  what is left of \<open>convert\<close> is the fast path, the two failures and the scaling.
\<close>

lemma convert_cases:
  "convert v uf ut =
     (if uf = ut then Inr v
      else case UNIT_MAP uf of
        None \<Rightarrow> Inl (ExceptionCoordUnitConvert (''Unsupported units '' @ str_unit ut))
      | Some sf \<Rightarrow>
          (case UNIT_MAP ut of
             None \<Rightarrow> Inl (ExceptionCoordUnitConvert (''Unsupported units '' @ str_unit uf))
           | Some st \<Rightarrow> Inr (v * sf / st)))"
  by (auto simp: convert_def convert_with_def convert_try_def bind_res_def UNIT_MAP_getitem_def
        py_truediv_def dest: UNIT_MAP_pos split: option.splits)

text \<open>
  The two failures for any pair of different units: a missing \<open>unitFrom\<close> is reported
  with the text of \<open>unitTo\<close>, and a missing \<open>unitTo\<close> (\<open>unitFrom\<close> being a key) with the
  text of \<open>unitFrom\<close>.
\<close>

lemma convert_raises_with_other_unit:
  "uf \<noteq> ut \<Longrightarrow> UNIT_MAP uf = None \<Longrightarrow>
     convert v uf ut = Inl (ExceptionCoordUnitConvert (''Unsupported units '' @ str_unit ut))"
  "uf \<noteq> ut \<Longrightarrow> UNIT_MAP uf = Some sf \<Longrightarrow> UNIT_MAP ut = None \<Longrightarrow>
     convert v uf ut = Inl (ExceptionCoordUnitConvert (''Unsupported units '' @ str_unit uf))"
  by (simp_all add: convert_cases)

lemma Dim_update_value: "(d::Dim)\<lparr>value := q\<rparr> = \<lparr>value = q, units = units d\<rparr>"
  by (cases d) simp

subsection \<open>Failures of convert\<close>

text \<open>
  C1. The claim: when \<open>unitFrom\<close> is missing from the table the error names \<open>unitFrom\<close>,
  and when only \<open>unitTo\<close> is missing it names \<open>unitTo\<close>.  The handler of the source
  formats the other unit in each branch: \<^verbatim>\<open>convert(1.0, "bogus", "pt")\<close> raises
  \<^verbatim>\<open>ExceptionCoordUnitConvert('Unsupported units pt')\<close>, a message in which \<^verbatim>\<open>bogus\<close>
  does not occur, and \<^verbatim>\<open>convert(1.0, "in", "bogus")\<close> raises
  \<^verbatim>\<open>ExceptionCoordUnitConvert('Unsupported units in')\<close>.
\<close>

theorem convert_error_names_the_supported_unit:
  "convert 1 (Some ''bogus'') (Some ''pt'')
     = Inl (ExceptionCoordUnitConvert ''Unsupported units pt'')
   \<and> \<not> sublist ''bogus'' ''Unsupported units pt''
   \<and> UNIT_MAP (Some ''pt'') = Some 1
   \<and> convert 1 (Some ''in'') (Some ''bogus'')
     = Inl (ExceptionCoordUnitConvert ''Unsupported units in'')
   \<and> \<not> sublist ''bogus'' ''Unsupported units in''
   \<and> UNIT_MAP (Some ''in'') = Some 72"
proof -
  have "\<not> sublist ''bogus'' ''Unsupported units pt''"
    by code_simp
  moreover have "\<not> sublist ''bogus'' ''Unsupported units in''"
    by code_simp
  ultimately show ?thesis
    by (simp add: convert_cases UNIT_MAP_lookup UNIT_MAP_bogus)
qed

subsection \<open>The identity fast path\<close>

text \<open>
  C7. For every value \<open>v\<close> and every unit \<open>u\<close> of the table (\<^verbatim>\<open>None\<close> included),
  \<^verbatim>\<open>convert(v, u, u)\<close> returns \<open>v\<close> itself.  No arithmetic takes part: the result is
  \<open>v\<close> for every multiplication \<open>mul\<close> and every division \<open>dv\<close> put in the place of
  \<^verbatim>\<open>*\<close> and \<^verbatim>\<open>/\<close>, rounding ones included.
\<close>

theorem convert_identity_on_table_units:
  "u \<in> dom UNIT_MAP \<Longrightarrow> convert v u u = Inr v \<and> convert_with mul dv v u u = Inr v"
  by (simp add: convert_def convert_with_same)

theorem convert_identity_on_table_units_witness:
  "None \<in> dom UNIT_MAP \<and> Some ''cm'' \<in> dom UNIT_MAP
   \<and> convert 3 None None = Inr 3
   \<and> convert_with (\<lambda>a b. 0) (\<lambda>a b. Inl ZeroDivisionError) 3 (Some ''cm'') (Some ''cm'') = Inr 3"
proof -
  have h1: "None \<in> dom UNIT_MAP" and h2: "Some ''cm'' \<in> dom UNIT_MAP"
    by (simp_all add: UNIT_MAP_dom)
  from h1 h2 convert_identity_on_table_units [OF h1, of 3]
    convert_identity_on_table_units [OF h2, of 3 "\<lambda>a b. 0" "\<lambda>a b. Inl ZeroDivisionError"]
  show ?thesis by simp
qed

text \<open>
  C10. For every value \<open>v\<close> and every unit identifier \<open>u\<close> whatsoever, \<^verbatim>\<open>convert(v, u, u)\<close>
  returns \<open>v\<close> and does not raise: the comparison of the two units comes before any
  lookup.  So \<^verbatim>\<open>convert(1.0, "bogus", "bogus")\<close> returns \<^verbatim>\<open>1.0\<close> although \<^verbatim>\<open>bogus\<close> is
  not a key of the table.
\<close>

theorem convert_equal_units_never_raises:
  "convert v u u = Inr v
   \<and> convert_with mul dv v u u = Inr v
   \<and> UNIT_MAP (Some ''bogus'') = None
   \<and> convert 1 (Some ''bogus'') (Some ''bogus'') = Inr 1"
  by (simp add: convert_def convert_with_same UNIT_MAP_bogus)

subsection \<open>Scaling between units of the table\<close>

text \<open>
  C3. The unit table has exactly the seven entries \<^verbatim>\<open>None\<close> 1.0, \<^verbatim>\<open>px\<close> 1.0, \<^verbatim>\<open>pt\<close> 1.0,
  \<^verbatim>\<open>pc\<close> 12.0, \<^verbatim>\<open>in\<close> 72.0, \<^verbatim>\<open>cm\<close> 72.0/2.54 and \<^verbatim>\<open>mm\<close> 72.0/25.4.  For every value
  \<open>v\<close> and two different units \<open>u1\<close>, \<open>u2\<close> of the table, \<^verbatim>\<open>convert(v, u1, u2)\<close> returns
  \<open>v\<close> times the scale of \<open>u1\<close> divided by the scale of \<open>u2\<close>.  In particular
  \<^verbatim>\<open>convert(1.0, "in", "pt")\<close> is 72.0, \<^verbatim>\<open>convert(1.0, "cm", "pt")\<close> is 72.0/2.54 and
  \<^verbatim>\<open>convert(25.4, "mm", "in")\<close> is 1.0.
\<close>

theorem UNIT_MAP_entries_and_convert_scaling:
  "dom UNIT_MAP
     = {None, Some ''px'', Some ''pt'', Some ''pc'', Some ''in'', Some ''cm'', Some ''mm''}
   \<and> UNIT_MAP None = Some 1.0
   \<and> UNIT_MAP (Some ''px'') = Some 1.0
   \<and> UNIT_MAP (Some ''pt'') = Some 1.0
   \<and> UNIT_MAP (Some ''pc'') = Some 12.0
   \<and> UNIT_MAP (Some ''in'') = Some 72.0
   \<and> UNIT_MAP (Some ''cm'') = Some (72.0 / 2.54)
   \<and> UNIT_MAP (Some ''mm'') = Some (72.0 / 25.4)
   \<and> (\<forall>u1 u2 s1 s2. UNIT_MAP u1 = Some s1 \<and> UNIT_MAP u2 = Some s2 \<and> u1 \<noteq> u2
         \<longrightarrow> convert v u1 u2 = Inr (v * s1 / s2))
   \<and> convert 1.0 (Some ''in'') (Some ''pt'') = Inr 72.0
   \<and> convert 1.0 (Some ''cm'') (Some ''pt'') = Inr (72.0 / 2.54)
   \<and> convert 25.4 (Some ''mm'') (Some ''in'') = Inr 1.0"
  by (simp add: UNIT_MAP_dom UNIT_MAP_lookup convert_cases)

theorem UNIT_MAP_entries_and_convert_scaling_witness:
  "UNIT_MAP (Some ''pc'') = Some 12 \<and> UNIT_MAP (Some ''in'') = Some 72
   \<and> Some ''pc'' \<noteq> Some ''in''
   \<and> convert 3 (Some ''pc'') (Some ''in'') = Inr (3 * 12 / 72)"
proof -
  have h: "UNIT_MAP (Some ''pc'') = Some 12 \<and> UNIT_MAP (Some ''in'') = Some 72
      \<and> Some ''pc'' \<noteq> Some ''in''"
    by (simp add: UNIT_MAP_lookup)
  from UNIT_MAP_entries_and_convert_scaling [of 3]
  have "\<forall>u1 u2 s1 s2. UNIT_MAP u1 = Some s1 \<and> UNIT_MAP u2 = Some s2 \<and> u1 \<noteq> u2
         \<longrightarrow> convert 3 u1 u2 = Inr (3 * s1 / s2)"
    by blast
  with h have "convert 3 (Some ''pc'') (Some ''in'') = Inr (3 * 12 / 72)"
    by blast
  with h show ?thesis by blast
qed

subsection \<open>Dim: division, sum, difference, comparisons\<close>

text \<open>
  C5, as the code has it.  \<^verbatim>\<open>Dim.divide\<close> has no guard for a zero factor and leaves the
  division to Python, whose \<^verbatim>\<open>/\<close> raises \<^verbatim>\<open>ZeroDivisionError\<close> on a zero divisor: for
  every Dim \<open>d\<close>, \<^verbatim>\<open>d.divide(0)\<close> raises \<^verbatim>\<open>ZeroDivisionError\<close>, and for a nonzero factor
  the result is \<^verbatim>\<open>Dim(d.value / factor, d.units)\<close>, the units unchanged.
\<close>

theorem Dim_divide_zero_raises_else_quotient:
  "Dim_divide d factor =
     (if factor = 0 then Inl ZeroDivisionError
      else Inr \<lparr>value = value d / factor, units = units d\<rparr>)"
  by (simp add: Dim_divide_def py_truediv_def bind_res_def Dim_update_value)

text \<open>
  The claim C5 as it was stated, that \<^verbatim>\<open>d.divide(0)\<close> does not raise, fails at
  \<^verbatim>\<open>Dim(1, "in").divide(0)\<close>.
\<close>

theorem Dim_divide_by_zero_counterexample:
  "Dim_divide \<lparr>value = 1, units = Some ''in''\<rparr> 0 = Inl ZeroDivisionError"
  by (simp add: Dim_divide_def py_truediv_def bind_res_def)

text \<open>
  C2. For all Dims \<open>a\<close> and \<open>b\<close>, \<open>a + b\<close> and \<open>a - b\<close> choose their units so: when
  \<open>a\<close> has the units \<^verbatim>\<open>None\<close> and \<open>b\<close> has not, the value of \<open>a\<close> is converted into the
  units of \<open>b\<close> and the result carries the units of \<open>b\<close>; in every other case the value
  of \<open>b\<close> is converted into the units of \<open>a\<close> and the result carries the units of \<open>a\<close>,
  also when both units are \<^verbatim>\<open>None\<close>, where the result keeps \<^verbatim>\<open>None\<close>.  So
  \<^verbatim>\<open>Dim(5, None) + Dim(1, "in")\<close> and \<^verbatim>\<open>Dim(1, "in") + Dim(5, None)\<close> are both
  \<^verbatim>\<open>Dim(1 + 5/72.0, "in")\<close>, and compare equal to it.
\<close>

theorem Dim_add_sub_unit_resolution:
  "Dim_add a b =
     (if units a = None \<and> units b \<noteq> None
      then (case convert (value a) None (units b) of
              Inl e \<Rightarrow> Inl e
            | Inr c \<Rightarrow> Inr \<lparr>value = value b + c, units = units b\<rparr>)
      else (case convert (value b) (units b) (units a) of
              Inl e \<Rightarrow> Inl e
            | Inr c \<Rightarrow> Inr \<lparr>value = value a + c, units = units a\<rparr>))
   \<and> Dim_sub a b =
     (if units a = None \<and> units b \<noteq> None
      then (case convert (value a) None (units b) of
              Inl e \<Rightarrow> Inl e
            | Inr c \<Rightarrow> Inr \<lparr>value = c - value b, units = units b\<rparr>)
      else (case convert (value b) (units b) (units a) of
              Inl e \<Rightarrow> Inl e
            | Inr c \<Rightarrow> Inr \<lparr>value = value a - c, units = units a\<rparr>))
   \<and> Dim_add \<lparr>value = v, units = None\<rparr> \<lparr>value = w, units = None\<rparr>
       = Inr \<lparr>value = v + w, units = None\<rparr>
   \<and> Dim_sub \<lparr>value = v, units = None\<rparr> \<lparr>value = w, units = None\<rparr>
       = Inr \<lparr>value = v - w, units = None\<rparr>
   \<and> Dim_add \<lparr>value = 5, units = None\<rparr> \<lparr>value = 1, units = Some ''in''\<rparr>
       = Inr \<lparr>value = 1 + 5 / 72.0, units = Some ''in''\<rparr>
   \<and> Dim_add \<lparr>value = 1, units = Some ''in''\<rparr> \<lparr>value = 5, units = None\<rparr>
       = Inr \<lparr>value = 1 + 5 / 72.0, units = Some ''in''\<rparr>
   \<and> bind_res (Dim_add \<lparr>value = 5, units = None\<rparr> \<lparr>value = 1, units = Some ''in''\<rparr>)
         (\<lambda>s. Dim_eq s \<lparr>value = 1 + 5 / 72.0, units = Some ''in''\<rparr>) = Inr True
   \<and> bind_res (Dim_add \<lparr>value = 1, units = Some ''in''\<rparr> \<lparr>value = 5, units = None\<rparr>)
         (\<lambda>s. Dim_eq s \<lparr>value = 1 + 5 / 72.0, units = Some ''in''\<rparr>) = Inr True"
proof -
  have rule_of_units:
    "Dim_add a b =
       (if units a = None \<and> units b \<noteq> None
        then (case convert (value a) None (units b) of
                Inl e \<Rightarrow> Inl e
              | Inr c \<Rightarrow> Inr \<lparr>value = value b + c, units = units b\<rparr>)
        else (case convert (value b) (units b) (units a) of
                Inl e \<Rightarrow> Inl e
              | Inr c \<Rightarrow> Inr \<lparr>value = value a + c, units = units a\<rparr>))
     \<and> Dim_sub a b =
       (if units a = None \<and> units b \<noteq> None
        then (case convert (value a) None (units b) of
                Inl e \<Rightarrow> Inl e
              | Inr c \<Rightarrow> Inr \<lparr>value = c - value b, units = units b\<rparr>)
        else (case convert (value b) (units b) (units a) of
                Inl e \<Rightarrow> Inl e
              | Inr c \<Rightarrow> Inr \<lparr>value = value a - c, units = units a\<rparr>))"
    by (simp add: Dim_add_def Dim_sub_def bind_res_def)
  have instances:
    "Dim_add \<lparr>value = v, units = None\<rparr> \<lparr>value = w, units = None\<rparr>
         = Inr \<lparr>value = v + w, units = None\<rparr>
     \<and> Dim_sub \<lparr>value = v, units = None\<rparr> \<lparr>value = w, units = None\<rparr>
         = Inr \<lparr>value = v - w, units = None\<rparr>
     \<and> Dim_add \<lparr>value = 5, units = None\<rparr> \<lparr>value = 1, units = Some ''in''\<rparr>
         = Inr \<lparr>value = 1 + 5 / 72.0, units = Some ''in''\<rparr>
     \<and> Dim_add \<lparr>value = 1, units = Some ''in''\<rparr> \<lparr>value = 5, units = None\<rparr>
         = Inr \<lparr>value = 1 + 5 / 72.0, units = Some ''in''\<rparr>
     \<and> bind_res (Dim_add \<lparr>value = 5, units = None\<rparr> \<lparr>value = 1, units = Some ''in''\<rparr>)
           (\<lambda>s. Dim_eq s \<lparr>value = 1 + 5 / 72.0, units = Some ''in''\<rparr>) = Inr True
     \<and> bind_res (Dim_add \<lparr>value = 1, units = Some ''in''\<rparr> \<lparr>value = 5, units = None\<rparr>)
           (\<lambda>s. Dim_eq s \<lparr>value = 1 + 5 / 72.0, units = Some ''in''\<rparr>) = Inr True"
    by (simp add: Dim_add_def Dim_sub_def Dim_eq_def bind_res_def convert_cases UNIT_MAP_lookup)
  from rule_of_units instances show ?thesis by blast
qed

text \<open>
  C4. For all Dims \<open>a\<close> and \<open>b\<close>, each of the six comparisons converts the value of
  \<open>b\<close> into the units of \<open>a\<close> and compares the value of \<open>a\<close>, as it stands, with the
  result.  So \<^verbatim>\<open>Dim(1, "in") > Dim(71, "pt")\<close> and \<^verbatim>\<open>Dim(1, "in") == Dim(72, "pt")\<close> are
  true.
\<close>

theorem Dim_comparisons_convert_other:
  "Dim_lt a b = map_sum id (\<lambda>c. value a < c) (convert (value b) (units b) (units a))
   \<and> Dim_le a b = map_sum id (\<lambda>c. value a \<le> c) (convert (value b) (units b) (units a))
   \<and> Dim_eq a b = map_sum id (\<lambda>c. value a = c) (convert (value b) (units b) (units a))
   \<and> Dim_ne a b = map_sum id (\<lambda>c. value a \<noteq> c) (convert (value b) (units b) (units a))
   \<and> Dim_gt a b = map_sum id (\<lambda>c. value a > c) (convert (value b) (units b) (units a))
   \<and> Dim_ge a b = map_sum id (\<lambda>c. value a \<ge> c) (convert (value b) (units b) (units a))
   \<and> Dim_gt \<lparr>value = 1, units = Some ''in''\<rparr> \<lparr>value = 71, units = Some ''pt''\<rparr> = Inr True
   \<and> Dim_eq \<lparr>value = 1, units = Some ''in''\<rparr> \<lparr>value = 72, units = Some ''pt''\<rparr> = Inr True"
  by (simp add: Dim_lt_def Dim_le_def Dim_eq_def Dim_ne_def Dim_gt_def Dim_ge_def bind_res_def
        convert_cases UNIT_MAP_lookup split: sum.splits)

subsection \<open>Points\<close>

text \<open>
  C6. \<^verbatim>\<open>zeroBaseUnitsPt()\<close> is a point whose \<open>x\<close> and \<open>y\<close> are both the Dim of value 0 in
  the base units, which are not \<^verbatim>\<open>None\<close>, and both compare equal to
  \<^verbatim>\<open>Dim(0.0, BASE_UNITS)\<close>.  Moving it by \<^verbatim>\<open>incX = Dim(5, "in")\<close> gives a point whose \<open>x\<close>
  is 360 in the base units, the five inches having been converted by the sum, and that
  \<open>x\<close> compares equal to \<^verbatim>\<open>Dim(360.0, "pt")\<close>.
\<close>

theorem zeroBaseUnitsPt_and_newPt_in_base_units:
  "x zeroBaseUnitsPt = \<lparr>value = 0, units = BASE_UNITS\<rparr>
   \<and> y zeroBaseUnitsPt = \<lparr>value = 0, units = BASE_UNITS\<rparr>
   \<and> BASE_UNITS \<noteq> None
   \<and> Dim_eq (x zeroBaseUnitsPt) (baseUnitsDim 0.0) = Inr True
   \<and> Dim_eq (y zeroBaseUnitsPt) (baseUnitsDim 0.0) = Inr True
   \<and> Dim_eq (x zeroBaseUnitsPt) (y zeroBaseUnitsPt) = Inr True
   \<and> newPt zeroBaseUnitsPt (Some \<lparr>value = 5, units = Some ''in''\<rparr>) None
       = Inr \<lparr>x = \<lparr>value = 360, units = BASE_UNITS\<rparr>, y = \<lparr>value = 0, units = BASE_UNITS\<rparr>\<rparr>
   \<and> bind_res (newPt zeroBaseUnitsPt (Some \<lparr>value = 5, units = Some ''in''\<rparr>) None)
         (\<lambda>p. Dim_eq (x p) \<lparr>value = 360.0, units = Some ''pt''\<rparr>) = Inr True"
  by (simp add: zeroBaseUnitsPt_def zeroBaseUnitsDim_def baseUnitsDim_def BASE_UNITS_def
        newPt_def Dim_iadd_def Dim_add_def Dim_eq_def bind_res_def convert_cases UNIT_MAP_lookup)

text \<open>
  C8. For every point \<open>p\<close> and unit identifier \<open>u\<close>, the function \<^verbatim>\<open>convertPt(p, u)\<close> and
  the method \<^verbatim>\<open>p.convert(u)\<close> give the same outcome: the same point, with \<open>x\<close> and \<open>y\<close>
  converted and their units set to \<open>u\<close>, or the same exception.
\<close>

theorem convertPt_is_Pt_convert:
  "convertPt p u = Pt_convert p u"
  by (cases p) (simp add: convertPt_def Pt_convert_def Dim_convert_def bind_res_def
        Dim_update_value split: sum.splits)

text \<open>
  C9. For every point \<open>p\<close> and unit identifier \<open>u\<close>, \<^verbatim>\<open>p.convert(u)\<close> converts \<open>x\<close> and
  then \<open>y\<close>, each with its own units, and stops at the first failure: when the conversion
  of \<open>x\<close> raises, the outcome is that exception whatever \<open>y\<close> is, so the conversion of
  \<open>y\<close> has no part in it.
\<close>

theorem Pt_convert_fails_on_x_first:
  "Pt_convert p u =
     (case Dim_convert (x p) u of
        Inl e \<Rightarrow> Inl e
      | Inr nx \<Rightarrow>
          (case Dim_convert (y p) u of
             Inl e \<Rightarrow> Inl e
           | Inr ny \<Rightarrow> Inr \<lparr>x = nx, y = ny\<rparr>))
   \<and> (Dim_convert (x p) u = Inl err \<longrightarrow> (\<forall>d. Pt_convert (p\<lparr>y := d\<rparr>) u = Inl err))"
  by (cases p) (simp add: Pt_convert_def bind_res_def split: sum.splits)

theorem Pt_convert_fails_on_x_first_witness:
  "Dim_convert (x \<lparr>x = \<lparr>value = 1, units = Some ''in''\<rparr>, y = \<lparr>value = 2, units = Some ''cm''\<rparr>\<rparr>)
       (Some ''bogus'') = Inl (ExceptionCoordUnitConvert ''Unsupported units in'')
   \<and> Dim_convert \<lparr>value = 2, units = Some ''cm''\<rparr> (Some ''bogus'')
       = Inl (ExceptionCoordUnitConvert ''Unsupported units cm'')
   \<and> Pt_convert \<lparr>x = \<lparr>value = 1, units = Some ''in''\<rparr>, y = \<lparr>value = 2, units = Some ''cm''\<rparr>\<rparr>
       (Some ''bogus'') = Inl (ExceptionCoordUnitConvert ''Unsupported units in'')"
proof -
  let ?p = "\<lparr>x = \<lparr>value = 1, units = Some ''in''\<rparr>, y = \<lparr>value = 2, units = Some ''cm''\<rparr>\<rparr>"
  let ?e = "ExceptionCoordUnitConvert ''Unsupported units in''"
  have hx: "Dim_convert (x ?p) (Some ''bogus'') = Inl ?e"
    by (simp add: Dim_convert_def bind_res_def convert_cases UNIT_MAP_lookup UNIT_MAP_bogus)
  have hy: "Dim_convert \<lparr>value = 2, units = Some ''cm''\<rparr> (Some ''bogus'')
       = Inl (ExceptionCoordUnitConvert ''Unsupported units cm'')"
    by (simp add: Dim_convert_def bind_res_def convert_cases UNIT_MAP_lookup UNIT_MAP_bogus)
  from Pt_convert_fails_on_x_first [of ?p "Some ''bogus''" ?e] hx
  have "\<forall>d. Pt_convert (?p\<lparr>y := d\<rparr>) (Some ''bogus'') = Inl ?e"
    by blast
  then have "Pt_convert (?p\<lparr>y := \<lparr>value = 2, units = Some ''cm''\<rparr>\<rparr>) (Some ''bogus'') = Inl ?e"
    by blast
  then have "Pt_convert ?p (Some ''bogus'') = Inl ?e" by simp
  with hx hy show ?thesis by blast
qed

end
